theory Spec2Isabelle
  imports Main
begin

section \<open>Exit policies (\<open>sg::ExitType\<close>)\<close>

text \<open>
  \<open>enum class ExitType { ALWAYS, ON_SUCCESS, ON_FAILURE }\<close>. The last two enumerators are
  only declared when the language standard macro is at least \<open>201411L\<close>.
\<close>

datatype ExitType = ALWAYS | ON_SUCCESS | ON_FAILURE

section \<open>Outcomes of calls and exception specifications\<close>

text \<open>
  A call returns a value, leaves by an exception that propagates to its caller, or ends
  the process through \<open>std::terminate\<close>. A function whose exception specification
  \<open>noexcept(b)\<close> evaluates to true never lets an exception out: the exception ends the
  process instead.
\<close>

datatype 'a result = Returns 'a | Throws | Terminates

fun noexcept_if :: "bool \<Rightarrow> 'a result \<Rightarrow> 'a result" where
  "noexcept_if True Throws = Terminates"
| "noexcept_if b r = r"

fun and_then :: "'a result \<Rightarrow> ('a \<Rightarrow> 'b result) \<Rightarrow> 'b result" where
  "and_then (Returns x) f = f x"
| "and_then Throws f = Throws"
| "and_then Terminates f = Terminates"

section \<open>The type traits of \<open>sg::detail\<close>\<close>

text \<open>
  The template argument \<open>Callback\<close> enters the header only through compile-time
  questions, which are the fields below: the type of the call expression
  \<open>std::declval<T&&>()()\<close> (\<open>None\<close> when that expression is ill-formed), the values of
  \<open>std::is_nothrow_invocable<T>\<close>, \<open>std::is_nothrow_destructible<T>\<close> and
  \<open>std::is_nothrow_constructible<T, T&&>\<close>, and whether the initialisation
  \<open>m_callback(std::forward<Callback>(callback))\<close> is well-formed at all, which is
  \<open>std::is_constructible<T, T&&>\<close>.
\<close>

datatype call_type = Void | NonVoid

record Callback_t =
  call_decltype :: "call_type option"
  std_is_nothrow_invocable :: bool
  std_is_nothrow_destructible :: bool
  std_is_constructible :: bool
  std_is_nothrow_constructible :: bool

text \<open>
  Lines 15 to 22: \<open>SG_REQUIRE_NOEXCEPT\<close> is defined when the language standard macro is
  at least \<open>201703L\<close> and \<open>SG_REQUIRE_NOEXCEPT_IN_CPP17\<close> is defined.
\<close>

definition SG_REQUIRE_NOEXCEPT :: "nat \<Rightarrow> bool \<Rightarrow> bool" where
  "SG_REQUIRE_NOEXCEPT cplusplus SG_REQUIRE_NOEXCEPT_IN_CPP17 =
     (201703 \<le> cplusplus \<and> SG_REQUIRE_NOEXCEPT_IN_CPP17)"

text \<open>
  \<open>is_noarg_callable_t<T>\<close> is \<open>is_noarg_callable_t<T, void>\<close>. The partial specialisation
  \<open>is_noarg_callable_t<T, decltype(std::declval<T&&>()())>\<close> is the one that derives from
  \<open>std::true_type\<close>; it is selected when the call expression is well-formed and its type is
  the second argument, \<open>void\<close>.
\<close>

definition is_noarg_callable_t :: "Callback_t \<Rightarrow> bool" where
  "is_noarg_callable_t T =
     (case call_decltype T of None \<Rightarrow> False | Some r \<Rightarrow> r = Void)"

text \<open>
  The value of a trait class is a \<open>bool option\<close>: \<open>None\<close> when instantiating the class is
  ill-formed. \<open>returns_void_t<T>\<close> names the call expression in its base class, with no
  fallback.
\<close>

definition returns_void_t :: "Callback_t \<Rightarrow> bool option" where
  "returns_void_t T =
     (case call_decltype T of None \<Rightarrow> None | Some r \<Rightarrow> Some (Void = r))"

definition is_nothrow_invocable_if_required_t :: "bool \<Rightarrow> Callback_t \<Rightarrow> bool" where
  "is_nothrow_invocable_if_required_t require_noexcept T =
     (if require_noexcept then std_is_nothrow_invocable T else True)"

text \<open>
  \<open>and_t<A, B>\<close> derives from \<open>std::conditional<A::value, B, A>::type\<close>: it reads
  \<open>A::value\<close> and instantiates \<open>B\<close> only when that value is true. With more arguments,
  \<open>and_t<A, B, C...>\<close> derives from \<open>and_t<A, and_t<B, C...>>\<close>.
\<close>

fun and_t :: "bool option \<Rightarrow> bool option \<Rightarrow> bool option list \<Rightarrow> bool option" where
  "and_t A B [] = (case A of None \<Rightarrow> None | Some a \<Rightarrow> if a then B else A)"
| "and_t A B (C # Cs) = and_t A (and_t B C Cs) []"

definition is_proper_sg_callback_t :: "bool \<Rightarrow> Callback_t \<Rightarrow> bool option" where
  "is_proper_sg_callback_t require_noexcept T =
     and_t (Some (is_noarg_callable_t T))
           (returns_void_t T)
           [Some (is_nothrow_invocable_if_required_t require_noexcept T),
            Some (std_is_nothrow_destructible T)]"


section \<open>The class template \<open>scope_guard\<close>\<close>

text \<open>
  A callback object acts on the state \<open>'w\<close> of the rest of the program when it is called.
  \<open>construct_throws\<close> tells whether initialising a new \<open>Callback\<close> from this object,
  forwarded as \<open>Callback&&\<close>, leaves by an exception when the program is in the given
  state. The constructor of \<open>Callback\<close> has the exception specification that
  \<open>std::is_nothrow_constructible\<close> reports.
\<close>

record 'w Callback =
  operator_call :: "'w \<Rightarrow> 'w result"
  construct_throws :: "'w \<Rightarrow> bool"

definition Callback_construct ::
  "Callback_t \<Rightarrow> 'w Callback \<Rightarrow> 'w \<Rightarrow> 'w Callback result" where
  "Callback_construct T c w =
     noexcept_if (std_is_nothrow_constructible T)
       (if construct_throws c w then Throws else Returns c)"

text \<open>
  A guard has the data members \<open>m_callback\<close> and \<open>m_active\<close>. The template arguments
  \<open>Callback\<close> and \<open>exit_type\<close> of its class are kept beside them; no member function
  assigns them.
\<close>

record 'w scope_guard =
  callback_type :: Callback_t
  exit_type :: ExitType
  m_callback :: "'w Callback"
  m_active :: bool

text \<open>
  The private constructor \<open>scope_guard(Callback&& callback)\<close>, lines 172 to 180. The last
  argument is the state of the program at the call.
\<close>

definition scope_guard_ctor ::
  "Callback_t \<Rightarrow> ExitType \<Rightarrow> 'w Callback \<Rightarrow> 'w \<Rightarrow> 'w scope_guard result" where
  "scope_guard_ctor T e callback w =
     noexcept_if (std_is_nothrow_constructible T)
       (and_then (Callback_construct T callback w)
          (\<lambda>c. Returns \<lparr>callback_type = T, exit_type = e, m_callback = c, m_active = True\<rparr>))"

text \<open>
  The move constructor \<open>scope_guard(scope_guard&& other)\<close>, lines 192 to 199. It returns
  the new guard and \<open>other\<close> as the constructor leaves it. When the initialisation of
  \<open>m_callback\<close> throws, the body is not reached and \<open>other\<close> is as it was.
\<close>

definition scope_guard_move ::
  "'w scope_guard \<Rightarrow> 'w \<Rightarrow> ('w scope_guard \<times> 'w scope_guard) result" where
  "scope_guard_move other w =
     noexcept_if (std_is_nothrow_constructible (callback_type other))
       (and_then (Callback_construct (callback_type other) (m_callback other) w)
          (\<lambda>c. Returns
             (\<lparr>callback_type = callback_type other, exit_type = exit_type other,
               m_callback = c, m_active = m_active other\<rparr>,
              other\<lparr>m_active := False\<rparr>)))"

text \<open>\<open>dismiss()\<close>, lines 202 to 206, declared \<open>noexcept\<close>.\<close>

definition dismiss :: "'w scope_guard \<Rightarrow> 'w scope_guard result" where
  "dismiss g = noexcept_if True (Returns (g\<lparr>m_active := False\<rparr>))"


section \<open>What the header leaves without behaviour\<close>

text \<open>
  Three parts of the header are not embedded, because as written they cannot be built.
  Each specialisation of the class template \<open>should_run\<close> (lines 88 to 104) declares a
  member \<open>static bool should_run()\<close>: a member named like its class is a constructor
  declaration, which can have neither a return type nor \<open>static\<close>, and in a \<open>class\<close> with
  no access specifier it is private. The destructor (lines 183 to 189) calls that member
  at line 187, so it cannot be instantiated. The only definition of \<open>make_scope_guard\<close>
  (lines 209 to 215) has the template parameters \<open>Callback\<close> and \<open>exit_type\<close>, the latter
  with no default and in no function parameter; the declaration of lines 117 to 122 and
  the friend declaration of line 151 have the single parameter \<open>Callback\<close> and no body,
  so the definition is not the befriended template and cannot use the private
  constructor.
\<close>

section \<open>Callback types and callbacks of \<open>compile_time_tests.cpp\<close>\<close>

text \<open>
  \<open>struct nothrow\<close>, \<open>struct throwing_move\<close> (move constructor \<open>noexcept(false)\<close>),
  \<open>struct nocopy_nomove\<close> (copy and move constructors deleted) and \<open>struct throwing_struct\<close>
  (\<open>void operator()()\<close> without \<open>noexcept\<close>), each taken as an rvalue, so that
  \<open>Callback\<close> is the class itself. The first three have
  \<open>void operator()() const noexcept\<close>; all four have a \<open>noexcept\<close> destructor.
\<close>

definition nothrow :: Callback_t where
  "nothrow = \<lparr>call_decltype = Some Void, std_is_nothrow_invocable = True,
     std_is_nothrow_destructible = True, std_is_constructible = True,
     std_is_nothrow_constructible = True\<rparr>"

definition throwing_move :: Callback_t where
  "throwing_move = \<lparr>call_decltype = Some Void, std_is_nothrow_invocable = True,
     std_is_nothrow_destructible = True, std_is_constructible = True,
     std_is_nothrow_constructible = False\<rparr>"



text \<open>
  Callback objects over a program state that is a counter: one that adds one to it, as in
  the scenario \<open>counter += 1\<close>, and one whose construction from an rvalue leaves by an
  exception once the counter is positive.
\<close>

definition increment :: "nat Callback" where
  "increment = \<lparr>operator_call = (\<lambda>w. Returns (Suc w)), construct_throws = (\<lambda>w. False)\<rparr>"

definition throwing_on_move :: "nat Callback" where
  "throwing_on_move =
     \<lparr>operator_call = (\<lambda>w. Returns (Suc w)), construct_throws = (\<lambda>w. 0 < w)\<rparr>"

text \<open>The guards that the private constructor makes from them, with a given policy.\<close>

definition nothrow_guard :: "ExitType \<Rightarrow> nat scope_guard" where
  "nothrow_guard e =
     \<lparr>callback_type = nothrow, exit_type = e, m_callback = increment, m_active = True\<rparr>"

definition throwing_move_guard :: "ExitType \<Rightarrow> nat scope_guard" where
  "throwing_move_guard e =
     \<lparr>callback_type = throwing_move, exit_type = e, m_callback = throwing_on_move,
      m_active = True\<rparr>"

section \<open>The action-validity contract as described\<close>

text \<open>
  The action-validity contract in the words of its description: the candidate can be called
  with no arguments, the call has no result, the call cannot throw when that is required,
  and destroying the candidate cannot throw.
\<close>

definition action_validity_contract :: "bool \<Rightarrow> Callback_t \<Rightarrow> bool" where
  "action_validity_contract require_noexcept T =
     (call_decltype T \<noteq> None
      \<and> call_decltype T = Some Void
      \<and> (require_noexcept \<longrightarrow> std_is_nothrow_invocable T)
      \<and> std_is_nothrow_destructible T)"

section \<open>Facts about outcomes and the member functions\<close>

lemma noexcept_if_Returns: "noexcept_if b r = Returns x \<longleftrightarrow> r = Returns x"
  by (cases b; cases r) simp_all

lemma noexcept_if_Throws: "noexcept_if b r = Throws \<longleftrightarrow> \<not> b \<and> r = Throws"
  by (cases b; cases r) simp_all

lemma and_then_Returns:
  "and_then r f = Returns y \<longleftrightarrow> (\<exists>x. r = Returns x \<and> f x = Returns y)"
  by (cases r) simp_all

lemma Callback_construct_Returns:
  "Callback_construct T c w = Returns c' \<longleftrightarrow> c' = c \<and> \<not> construct_throws c w"
  by (cases "std_is_nothrow_constructible T"; cases "construct_throws c w")
     (auto simp: Callback_construct_def)

lemma scope_guard_ctor_Returns:
  "scope_guard_ctor T e cb w = Returns g \<longleftrightarrow>
     g = \<lparr>callback_type = T, exit_type = e, m_callback = cb, m_active = True\<rparr>
     \<and> \<not> construct_throws cb w"
  by (auto simp: scope_guard_ctor_def noexcept_if_Returns and_then_Returns
      Callback_construct_Returns)

lemma scope_guard_ctor_Throws:
  "scope_guard_ctor T e cb w = Throws \<longleftrightarrow>
     \<not> std_is_nothrow_constructible T \<and> construct_throws cb w"
  by (cases "std_is_nothrow_constructible T"; cases "construct_throws cb w")
     (simp_all add: scope_guard_ctor_def Callback_construct_def)

lemma scope_guard_move_Returns:
  "scope_guard_move g w = Returns (new, other) \<longleftrightarrow>
     new = g \<and> other = g\<lparr>m_active := False\<rparr> \<and> \<not> construct_throws (m_callback g) w"
  by (auto simp: scope_guard_move_def noexcept_if_Returns and_then_Returns
      Callback_construct_Returns)

lemma scope_guard_move_Throws:
  "scope_guard_move g w = Throws \<longleftrightarrow>
     \<not> std_is_nothrow_constructible (callback_type g) \<and> construct_throws (m_callback g) w"
  by (cases "std_is_nothrow_constructible (callback_type g)";
      cases "construct_throws (m_callback g) w")
     (simp_all add: scope_guard_move_def Callback_construct_def)

lemma dismiss_Returns: "dismiss g = Returns (g\<lparr>m_active := False\<rparr>)"
  by (simp add: dismiss_def)


section \<open>Relocation\<close>

text \<open>
  Claim C4. Relocation is one operation. When it completes, the new guard holds the same
  action and the same policy as the source and has the active flag that the source had,
  and the source's active flag is false: the two are never both active, and an inactive
  source gives an inactive destination. It completes whenever constructing the action of
  the new guard does not throw.
\<close>

theorem relocation_hands_over_activity:
  "(\<not> construct_throws (m_callback other) w \<longrightarrow>
      (\<exists>new other'. scope_guard_move other w = Returns (new, other')))
   \<and> (\<forall>new other'. scope_guard_move other w = Returns (new, other') \<longrightarrow>
        m_callback new = m_callback other
        \<and> exit_type new = exit_type other
        \<and> m_active new = m_active other
        \<and> \<not> m_active other'
        \<and> \<not> (m_active new \<and> m_active other')
        \<and> (\<not> m_active other \<longrightarrow> \<not> m_active new))"
  by (simp add: scope_guard_move_Returns)

theorem relocation_hands_over_activity_witness:
  "\<not> construct_throws (m_callback (nothrow_guard ON_SUCCESS)) 0
   \<and> scope_guard_move (nothrow_guard ON_SUCCESS) 0
       = Returns (nothrow_guard ON_SUCCESS, (nothrow_guard ON_SUCCESS)\<lparr>m_active := False\<rparr>)
   \<and> m_active (nothrow_guard ON_SUCCESS)
   \<and> \<not> m_active ((nothrow_guard ON_SUCCESS)\<lparr>m_active := False\<rparr>)
   \<and> scope_guard_move ((nothrow_guard ON_SUCCESS)\<lparr>m_active := False\<rparr>) 0
       = Returns ((nothrow_guard ON_SUCCESS)\<lparr>m_active := False\<rparr>,
                  (nothrow_guard ON_SUCCESS)\<lparr>m_active := False\<rparr>)"
proof -
  have ok: "\<not> construct_throws (m_callback (nothrow_guard ON_SUCCESS)) 0"
    by (simp add: nothrow_guard_def increment_def)
  have act: "m_active (nothrow_guard ON_SUCCESS)"
    by (simp add: nothrow_guard_def)
  have m1: "scope_guard_move (nothrow_guard ON_SUCCESS) 0
       = Returns (nothrow_guard ON_SUCCESS, (nothrow_guard ON_SUCCESS)\<lparr>m_active := False\<rparr>)"
    using ok by (simp add: scope_guard_move_Returns)
  have m2: "scope_guard_move ((nothrow_guard ON_SUCCESS)\<lparr>m_active := False\<rparr>) 0
       = Returns ((nothrow_guard ON_SUCCESS)\<lparr>m_active := False\<rparr>,
                  (nothrow_guard ON_SUCCESS)\<lparr>m_active := False\<rparr>)"
    using ok by (simp add: scope_guard_move_Returns)
  note handed = relocation_hands_over_activity[THEN conjunct2, rule_format]
  from handed[OF m1] have "\<not> m_active ((nothrow_guard ON_SUCCESS)\<lparr>m_active := False\<rparr>)"
    by simp
  with handed[OF m2] ok act m1 m2 show ?thesis by simp
qed

section \<open>Dismissal\<close>



text \<open>
  Claim C10. Dismissing changes the active flag only: the action and the policy of the
  guard after the call are those before it, for every guard in every state.
\<close>

theorem dismiss_changes_only_m_active:
  "\<exists>g'. dismiss g = Returns g'
      \<and> m_callback g' = m_callback g
      \<and> exit_type g' = exit_type g
      \<and> callback_type g' = callback_type g
      \<and> g' = g\<lparr>m_active := False\<rparr>"
  by (simp add: dismiss_def)

section \<open>The action-validity contract\<close>

text \<open>
  The trait \<open>is_noarg_callable_t\<close> already answers false for a callable whose result is not
  \<open>void\<close>, and \<open>and_t\<close> never instantiates \<open>returns_void_t\<close> for a type that cannot be
  called.
\<close>

lemma is_noarg_callable_t_Void: "is_noarg_callable_t T \<longleftrightarrow> call_decltype T = Some Void"
  by (simp add: is_noarg_callable_t_def split: option.splits)

lemma is_proper_sg_callback_t_value:
  "is_proper_sg_callback_t require_noexcept T = Some (action_validity_contract require_noexcept T)"
  by (cases "call_decltype T")
     (auto simp: is_proper_sg_callback_t_def is_noarg_callable_t_def returns_void_t_def
        is_nothrow_invocable_if_required_t_def action_validity_contract_def)




section \<open>Failures of construction, relocation and dismissal\<close>

text \<open>
  Claim C8, as the code has it. Dismissal cannot fail. The constructor of a guard and the
  relocation of a guard complete whenever constructing the stored action from the
  forwarded one does not throw. When that construction throws and the action type is not
  \<open>std::is_nothrow_constructible\<close> from its own rvalue, the exception leaves the
  constructor or the relocation; when the action type is, no exception leaves them.
\<close>

theorem failure_only_from_callback_construction:
  "(\<exists>g'. dismiss g = Returns g')
   \<and> (\<not> construct_throws callback w \<longrightarrow>
        (\<exists>g'. scope_guard_ctor T e callback w = Returns g'))
   \<and> (\<not> construct_throws (m_callback g) w \<longrightarrow> (\<exists>p. scope_guard_move g w = Returns p))
   \<and> (construct_throws callback w \<and> \<not> std_is_nothrow_constructible T \<longrightarrow>
        scope_guard_ctor T e callback w = Throws)
   \<and> (construct_throws (m_callback g) w \<and> \<not> std_is_nothrow_constructible (callback_type g) \<longrightarrow>
        scope_guard_move g w = Throws)
   \<and> (std_is_nothrow_constructible T \<longrightarrow> scope_guard_ctor T e callback w \<noteq> Throws)
   \<and> (std_is_nothrow_constructible (callback_type g) \<longrightarrow> scope_guard_move g w \<noteq> Throws)"
proof -
  have dis: "\<exists>g'. dismiss g = Returns g'"
    by (simp add: dismiss_Returns)
  have mk: "\<exists>g'. scope_guard_ctor T e callback w = Returns g'"
    if "\<not> construct_throws callback w"
    using that by (simp add: scope_guard_ctor_Returns)
  have mv: "\<exists>p. scope_guard_move g w = Returns p" if "\<not> construct_throws (m_callback g) w"
    using that by (simp add: scope_guard_move_Returns)
  show ?thesis
    using dis mk mv by (simp add: scope_guard_ctor_Throws scope_guard_move_Throws)
qed

theorem failure_only_from_callback_construction_witness:
  "\<not> construct_throws throwing_on_move 0
   \<and> scope_guard_ctor throwing_move ALWAYS throwing_on_move 0
       = Returns (throwing_move_guard ALWAYS)
   \<and> scope_guard_move (throwing_move_guard ALWAYS) 0
       = Returns (throwing_move_guard ALWAYS, (throwing_move_guard ALWAYS)\<lparr>m_active := False\<rparr>)
   \<and> construct_throws throwing_on_move 1
   \<and> \<not> std_is_nothrow_constructible throwing_move
   \<and> scope_guard_ctor throwing_move ALWAYS throwing_on_move 1 = Throws
   \<and> scope_guard_move (throwing_move_guard ALWAYS) 1 = Throws
   \<and> std_is_nothrow_constructible nothrow
   \<and> scope_guard_ctor nothrow ALWAYS throwing_on_move 1 \<noteq> Throws
   \<and> scope_guard_move ((nothrow_guard ALWAYS)\<lparr>m_callback := throwing_on_move\<rparr>) 1 \<noteq> Throws
   \<and> dismiss (throwing_move_guard ALWAYS)
       = Returns ((throwing_move_guard ALWAYS)\<lparr>m_active := False\<rparr>)"
proof -
  have quiet: "\<not> construct_throws throwing_on_move 0"
    "\<not> construct_throws (m_callback (throwing_move_guard ALWAYS)) 0"
    and loud: "construct_throws throwing_on_move 1"
    "construct_throws (m_callback (throwing_move_guard ALWAYS)) 1"
    by (simp_all add: throwing_on_move_def throwing_move_guard_def)
  have may: "\<not> std_is_nothrow_constructible throwing_move"
    "\<not> std_is_nothrow_constructible (callback_type (throwing_move_guard ALWAYS))"
    and never: "std_is_nothrow_constructible nothrow"
    "std_is_nothrow_constructible
       (callback_type ((nothrow_guard ALWAYS)\<lparr>m_callback := throwing_on_move\<rparr>))"
    by (simp_all add: throwing_move_def throwing_move_guard_def nothrow_def nothrow_guard_def)
  note at0 = failure_only_from_callback_construction
    [where g = "throwing_move_guard ALWAYS" and callback = throwing_on_move and w = 0
       and T = throwing_move and e = ALWAYS]
  note at1 = failure_only_from_callback_construction
    [where g = "throwing_move_guard ALWAYS" and callback = throwing_on_move and w = 1
       and T = throwing_move and e = ALWAYS]
  note nt1 = failure_only_from_callback_construction
    [where g = "(nothrow_guard ALWAYS)\<lparr>m_callback := throwing_on_move\<rparr>"
       and callback = throwing_on_move and w = 1 and T = nothrow and e = ALWAYS]
  from at0 quiet
  have "\<exists>g'. scope_guard_ctor throwing_move ALWAYS throwing_on_move 0 = Returns g'"
    and "\<exists>p. scope_guard_move (throwing_move_guard ALWAYS) 0 = Returns p"
    by simp_all
  then have done0: "scope_guard_ctor throwing_move ALWAYS throwing_on_move 0
                      = Returns (throwing_move_guard ALWAYS)"
    "scope_guard_move (throwing_move_guard ALWAYS) 0
       = Returns (throwing_move_guard ALWAYS, (throwing_move_guard ALWAYS)\<lparr>m_active := False\<rparr>)"
    by (simp_all add: scope_guard_ctor_Returns scope_guard_move_Returns throwing_move_guard_def)
  from at1 loud may
  have thrown: "scope_guard_ctor throwing_move ALWAYS throwing_on_move 1 = Throws"
    "scope_guard_move (throwing_move_guard ALWAYS) 1 = Throws"
    by simp_all
  from nt1 never
  have kept: "scope_guard_ctor nothrow ALWAYS throwing_on_move 1 \<noteq> Throws"
    "scope_guard_move ((nothrow_guard ALWAYS)\<lparr>m_callback := throwing_on_move\<rparr>) 1 \<noteq> Throws"
    by simp_all
  from quiet(1) loud(1) may(1) never(1) done0 thrown kept show ?thesis
    by (simp add: dismiss_Returns)
qed

text \<open>
  Claim C8 as stated fails for an action with the traits of \<open>struct throwing_move\<close>, a
  valid action type whose move constructor is \<open>noexcept(false)\<close>: when the move constructor
  throws, the exception leaves the constructor of a guard, and it leaves the relocation
  of a guard that was constructed earlier.
\<close>

theorem construction_and_relocation_can_throw:
  "is_proper_sg_callback_t True throwing_move = Some True
   \<and> scope_guard_ctor throwing_move ALWAYS throwing_on_move 1 = Throws
   \<and> scope_guard_ctor throwing_move ALWAYS throwing_on_move 0
       = Returns (throwing_move_guard ALWAYS)
   \<and> scope_guard_move (throwing_move_guard ALWAYS) 1 = Throws"
  by (simp add: is_proper_sg_callback_t_value action_validity_contract_def
      scope_guard_ctor_def scope_guard_move_def
      Callback_construct_def throwing_move_def throwing_on_move_def throwing_move_guard_def)

end
